theory Spec2Isabelle
  imports Main "HOL-Library.Word" "HOL-Library.Multiset"
begin

section \<open>Values of the JavaScript side\<close>

text \<open>
  A destructured field of \<open>req.body\<close>: the key is missing (\<open>undefined\<close>), it is JSON
  \<open>null\<close>, or it carries a value. The handlers tell the three apart: the create handlers
  test truthiness (\<open>!x\<close>, \<open>x || d\<close>), the update handlers test \<open>x !== undefined\<close>.
  Body fields are modelled at the JavaScript type of the column they are written to
  (a string for varchar, text, enum and timestamp columns, an integer for integer columns,
  an array of strings for \<open>tags\<close>, any JSON value for \<open>metadata\<close>); a request with a
  body carries a JSON object. A query parameter of \<open>req.query\<close> and a path parameter of
  \<open>req.params\<close> are strings of ASCII characters, a query parameter possibly missing.
  Strings are text without the NUL character.
\<close>

datatype 'a jsfield = Undefined | Null | Val 'a

text \<open>JSON values, for the \<open>metadata\<close> column; a missing key is \<open>None\<close> of \<open>json option\<close>.\<close>

datatype json = JNull | JBool bool | JNum int | JStr string | JArr "json list"
  | JObj "(string \<times> json) list"

text \<open>JavaScript truthiness: \<open>undefined\<close>, \<open>null\<close>, \<open>0\<close>, \<open>""\<close> and \<open>false\<close> are falsy;
  every array and object is truthy.\<close>

fun truthy_str :: "string jsfield \<Rightarrow> bool" where
  "truthy_str (Val s) = (s \<noteq> [])"
| "truthy_str _ = False"

fun truthy_num :: "int jsfield \<Rightarrow> bool" where
  "truthy_num (Val n) = (n \<noteq> 0)"
| "truthy_num _ = False"

fun truthy_arr :: "'a list jsfield \<Rightarrow> bool" where
  "truthy_arr (Val xs) = True"
| "truthy_arr _ = False"

fun truthy_json :: "json option \<Rightarrow> bool" where
  "truthy_json None = False"
| "truthy_json (Some JNull) = False"
| "truthy_json (Some (JBool b)) = b"
| "truthy_json (Some (JNum n)) = (n \<noteq> 0)"
| "truthy_json (Some (JStr s)) = (s \<noteq> [])"
| "truthy_json (Some (JArr xs)) = True"
| "truthy_json (Some (JObj kvs)) = True"

subsection \<open>parseInt\<close>

text \<open>
  \<open>parseInt(s)\<close> with no radix: leading white space is skipped, then an optional sign,
  then an optional \<open>0x\<close>/\<open>0X\<close> prefix (radix 16, otherwise 10), then the longest run of
  digits of that radix; what follows is ignored. No digit at all gives \<open>NaN\<close>, here
  \<open>None\<close>. The result is the exact integer; JavaScript rounds it to a double above
  \<open>2^53\<close>, far outside the range the integer columns accept (see \<open>to_int4\<close>), so the
  handlers behave the same on both.
\<close>

definition is_ws :: "char \<Rightarrow> bool" where
  "is_ws c \<longleftrightarrow> c \<in> set [CHR 0x09, CHR 0x0A, CHR 0x0B, CHR 0x0C, CHR 0x0D, CHR 0x20]"

definition digit_val :: "char \<Rightarrow> nat option" where
  "digit_val c =
     (let n = of_char c :: nat in
      if 48 \<le> n \<and> n \<le> 57 then Some (n - 48)
      else if 97 \<le> n \<and> n \<le> 102 then Some (n - 87)
      else if 65 \<le> n \<and> n \<le> 70 then Some (n - 55)
      else None)"

definition is_digit :: "nat \<Rightarrow> char \<Rightarrow> bool" where
  "is_digit radix c = (case digit_val c of None \<Rightarrow> False | Some d \<Rightarrow> d < radix)"

definition strip_sign :: "string \<Rightarrow> bool \<times> string" where
  "strip_sign s =
     (case s of
        [] \<Rightarrow> (False, [])
      | c # r \<Rightarrow> if c = CHR ''-'' then (True, r)
                 else if c = CHR ''+'' then (False, r) else (False, s))"

definition strip_radix :: "string \<Rightarrow> nat \<times> string" where
  "strip_radix s =
     (case s of
        a # b # r \<Rightarrow>
          if a = CHR ''0'' \<and> (b = CHR ''x'' \<or> b = CHR ''X'') then (16, r) else (10, s)
      | _ \<Rightarrow> (10, s))"

definition parseInt :: "string \<Rightarrow> int option" where
  "parseInt s =
     (let (neg, t) = strip_sign (dropWhile is_ws s);
          (radix, u) = strip_radix t;
          ds = takeWhile (is_digit radix) u;
          v = foldl (\<lambda>a c. a * int radix + int (the (digit_val c))) 0 ds
      in if ds = [] then None else Some (if neg then - v else v))"

section \<open>The schema (src/db/schema.js)\<close>

text \<open>\<open>matchStatusEnum\<close>: the enum \<open>match_status\<close> with its three labels.\<close>

datatype match_status = Scheduled | Live | Finished

definition status_label :: "string \<Rightarrow> match_status option" where
  "status_label s =
     (if s = ''scheduled'' then Some Scheduled
      else if s = ''live'' then Some Live
      else if s = ''finished'' then Some Finished
      else None)"

text \<open>
  \<open>integer\<close> and \<open>serial\<close> columns hold signed 32-bit integers: a stored value is a
  \<open>32 word\<close>, read with \<open>sint\<close>. \<open>timestamp\<close> columns hold a time value, here the
  milliseconds since the epoch that a JavaScript \<open>Date\<close> carries.
\<close>

type_synonym int4 = "32 word"
type_synonym timestamp = int

record match_row =
  m_id :: int4
  m_sport :: string
  m_homeTeam :: string
  m_awayTeam :: string
  m_status :: match_status
  m_startTime :: timestamp
  m_endTime :: "timestamp option"
  m_homeScore :: int4
  m_awayScore :: int4
  m_createdAt :: timestamp

record commentary_row =
  c_id :: int4
  c_matchId :: int4
  c_minute :: "int4 option"
  c_sequence :: int4
  c_period :: "string option"
  c_eventType :: string
  c_actor :: string
  c_team :: string
  c_message :: string
  c_metadata :: "json option"
  c_tags :: "string list option"
  c_createdAt :: timestamp

text \<open>
  The stored state: the two tables, each a list of rows in storage order, and the two
  sequences behind the \<open>serial\<close> ids (the value the next insert draws). A row is kept
  the way a \<open>select\<close> or a \<open>returning()\<close> hands it to the handler; for the \<open>jsonb\<close>
  column \<open>metadata\<close> that is the value as it is read back (see \<open>to_jsonb\<close>).
\<close>

record db_state =
  matches :: "match_row list"
  commentary :: "commentary_row list"
  matches_id_seq :: int
  commentary_id_seq :: int

section \<open>The storage layer\<close>

text \<open>
  The handlers reach the tables through the query builder (\<open>db.select()\<close>,
  \<open>db.insert()\<close>, \<open>db.update()\<close>, \<open>db.delete()\<close>, \<open>eq\<close>, \<open>desc\<close>), which sends one
  SQL statement with bound parameters to the database. This section gives each statement
  the handlers issue its effect on the stored state, with the constraints that
  \<open>schema.js\<close> declares for the columns: types and lengths, \<open>notNull\<close>, defaults, the
  enum, and the foreign key with its cascade.

  What a statement can throw into the handler's \<open>catch\<close>: the query builder's
  \<open>No values to set\<close> (an update with an empty \<open>set\<close>), the \<open>RangeError\<close> of encoding an
  invalid \<open>Date\<close> for a timestamp column, and an error of the database (a value the
  column's type does not accept, a violated \<open>notNull\<close> or foreign key); the text of a
  database error is not modelled.
\<close>

datatype thrown = No_values_to_set | Invalid_time_value | Storage_error

text \<open>A parameter bound to an \<open>integer\<close> column: accepted inside the signed 32-bit range.
  \<open>NaN\<close> is not an integer and is rejected.\<close>

definition int4_range :: "int \<Rightarrow> bool" where
  "int4_range k \<longleftrightarrow> - (2 ^ 31) \<le> k \<and> k < 2 ^ 31"

definition to_int4 :: "int \<Rightarrow> int4 option" where
  "to_int4 k = (if int4_range k then Some (word_of_int k) else None)"

definition int4_param :: "int option \<Rightarrow> thrown + int4" where
  "int4_param v =
     (case v of
        None \<Rightarrow> Inl Storage_error
      | Some k \<Rightarrow> (case to_int4 k of None \<Rightarrow> Inl Storage_error | Some w \<Rightarrow> Inr w))"

text \<open>A string stored in a \<open>varchar(n)\<close> column: accepted up to \<open>n\<close> characters; a longer
  one is rejected, unless all that exceeds \<open>n\<close> is spaces, which are cut off.\<close>

definition to_varchar :: "nat \<Rightarrow> string \<Rightarrow> thrown + string" where
  "to_varchar n s =
     (if length s \<le> n then Inr s
      else if list_all (\<lambda>c. c = CHR '' '') (drop n s) then Inr (take n s)
      else Inl Storage_error)"

text \<open>A string bound to the enum column \<open>status\<close>: one of the three labels, or rejected.\<close>

definition to_status :: "string \<Rightarrow> thrown + match_status" where
  "to_status s = (case status_label s of None \<Rightarrow> Inl Storage_error | Some st \<Rightarrow> Inr st)"

text \<open>A \<open>Date\<close> bound to a timestamp column is encoded with \<open>toISOString()\<close>, which throws
  on an invalid date; an invalid \<open>Date\<close> is \<open>None\<close>.\<close>

definition to_timestamp :: "int option \<Rightarrow> thrown + timestamp" where
  "to_timestamp d = (case d of None \<Rightarrow> Inl Invalid_time_value | Some t \<Rightarrow> Inr t)"

definition and_then :: "'e + 'a \<Rightarrow> ('a \<Rightarrow> 'e + 'b) \<Rightarrow> 'e + 'b" where
  "and_then r f = (case r of Inl e \<Rightarrow> Inl e | Inr v \<Rightarrow> f v)"

subsection \<open>select on matches\<close>

text \<open>
  The query builder of \<open>db.select().from(matchesTable)\<close> keeps one \<open>where\<close> condition in
  its configuration: \<open>.where(c)\<close> assigns it, so a second call replaces the condition of
  the first. The conditions the handlers build are \<open>eq(column, value)\<close>.
\<close>

datatype match_cond = Eq_status string | Eq_sport string | Eq_id "int option"

record select_matches =
  q_where :: "match_cond option"

definition select_from_matches :: select_matches where
  "select_from_matches = \<lparr>q_where = None\<rparr>"

definition qb_where :: "select_matches \<Rightarrow> match_cond \<Rightarrow> select_matches" where
  "qb_where q c = q\<lparr>q_where := Some c\<rparr>"

fun match_pred :: "match_cond \<Rightarrow> thrown + (match_row \<Rightarrow> bool)" where
  "match_pred (Eq_status s) = and_then (to_status s) (\<lambda>st. Inr (\<lambda>m. m_status m = st))"
| "match_pred (Eq_sport s) = Inr (\<lambda>m. m_sport m = s)"
| "match_pred (Eq_id v) = and_then (int4_param v) (\<lambda>w. Inr (\<lambda>m. m_id m = w))"

definition run_select_matches :: "select_matches \<Rightarrow> db_state \<Rightarrow> thrown + match_row list" where
  "run_select_matches q db =
     (case q_where q of
        None \<Rightarrow> Inr (matches db)
      | Some c \<Rightarrow> and_then (match_pred c) (\<lambda>p. Inr (filter p (matches db))))"

section \<open>Responses\<close>

text \<open>
  \<open>res.status(n).json(...)\<close>: the status code and the body, which is
  \<open>{success: true, data}\<close>, \<open>{success: true, message}\<close>, or \<open>{success: false, error}\<close>
  with either a message written in the handler or the message of a caught error.
\<close>

datatype payload = One_match match_row | Many_matches "match_row list"
  | One_commentary commentary_row | Many_commentary "commentary_row list"

datatype body = Success_data payload | Success_message string
  | Failure string | Failure_thrown thrown

datatype response = Response nat body

section \<open>The handlers (src/index.js)\<close>

subsection \<open>GET /matches\<close>

definition get_matches ::
  "string option \<Rightarrow> string option \<Rightarrow> db_state \<Rightarrow> response \<times> db_state" where
  "get_matches status sport db =
     (let query = select_from_matches;
          query = (case status of
                     Some s \<Rightarrow> if s \<noteq> [] then qb_where query (Eq_status s) else query
                   | None \<Rightarrow> query);
          query = (case sport of
                     Some s \<Rightarrow> if s \<noteq> [] then qb_where query (Eq_sport s) else query
                   | None \<Rightarrow> query)
      in case run_select_matches query db of
           Inr rows \<Rightarrow> (Response 200 (Success_data (Many_matches rows)), db)
         | Inl e \<Rightarrow> (Response 400 (Failure_thrown e), db))"

subsection \<open>GET /matches/:id\<close>

definition get_match :: "string \<Rightarrow> db_state \<Rightarrow> response \<times> db_state" where
  "get_match id' db =
     (case run_select_matches (qb_where select_from_matches (Eq_id (parseInt id'))) db of
        Inl e \<Rightarrow> (Response 400 (Failure_thrown e), db)
      | Inr match \<Rightarrow>
          (case match of
             [] \<Rightarrow> (Response 404 (Failure ''Match not found''), db)
           | m # _ \<Rightarrow> (Response 200 (Success_data (One_match m)), db)))"

subsection \<open>POST /matches\<close>

text \<open>
  \<open>new Date(v)\<close>: of \<open>undefined\<close> the invalid date, of \<open>null\<close> the epoch, of a string what
  \<open>Date.parse\<close> makes of it. \<open>Date.parse\<close> belongs to the JavaScript runtime and is a
  parameter \<open>parse\<close> of the handlers that use it: \<open>None\<close> is an invalid date, \<open>Some t\<close>
  the date with time value \<open>t\<close>.
\<close>

fun new_Date :: "(string \<Rightarrow> int option) \<Rightarrow> string jsfield \<Rightarrow> int option" where
  "new_Date parse Undefined = None"
| "new_Date parse Null = Some 0"
| "new_Date parse (Val s) = parse s"

text \<open>The request body; \<open>pm_status\<close> is a \<open>status\<close> key the client may send, which the
  handler does not read.\<close>

record post_match_body =
  pm_sport :: "string jsfield"
  pm_homeTeam :: "string jsfield"
  pm_awayTeam :: "string jsfield"
  pm_startTime :: "string jsfield"
  pm_status :: "string jsfield"

text \<open>The object given to \<open>.values(...)\<close>.\<close>

record match_values =
  v_sport :: "string jsfield"
  v_homeTeam :: "string jsfield"
  v_awayTeam :: "string jsfield"
  v_startTime :: "int option"
  v_status :: string

text \<open>A value for a \<open>notNull\<close> varchar column without default: \<open>null\<close> or a missing key
  violates the constraint.\<close>

definition notnull_varchar :: "nat \<Rightarrow> string jsfield \<Rightarrow> thrown + string" where
  "notnull_varchar n f = (case f of Val s \<Rightarrow> to_varchar n s | _ \<Rightarrow> Inl Storage_error)"

text \<open>
  \<open>db.insert(matchesTable).values(v).returning()\<close>: the columns not given take their
  defaults (\<open>id\<close> the next value of the sequence, \<open>endTime\<close> null, the scores 0,
  \<open>createdAt\<close> the time \<open>now\<close> of the statement). A rejected insert stores nothing.
\<close>

definition insert_match ::
  "timestamp \<Rightarrow> match_values \<Rightarrow> db_state \<Rightarrow> thrown + (match_row \<times> db_state)" where
  "insert_match now v db =
     and_then (to_timestamp (v_startTime v)) (\<lambda>start.
     and_then (notnull_varchar 50 (v_sport v)) (\<lambda>sport.
     and_then (notnull_varchar 100 (v_homeTeam v)) (\<lambda>home.
     and_then (notnull_varchar 100 (v_awayTeam v)) (\<lambda>away.
     and_then (to_status (v_status v)) (\<lambda>st.
       case to_int4 (matches_id_seq db) of
         None \<Rightarrow> Inl Storage_error
       | Some i \<Rightarrow>
           let row = \<lparr>m_id = i, m_sport = sport, m_homeTeam = home, m_awayTeam = away,
                      m_status = st, m_startTime = start, m_endTime = None,
                      m_homeScore = 0, m_awayScore = 0, m_createdAt = now\<rparr>
           in Inr (row, db\<lparr>matches := matches db @ [row],
                            matches_id_seq := matches_id_seq db + 1\<rparr>))))))"

definition post_matches ::
  "(string \<Rightarrow> int option) \<Rightarrow> timestamp \<Rightarrow> post_match_body \<Rightarrow> db_state
     \<Rightarrow> response \<times> db_state" where
  "post_matches parse now b db =
     (let sport = pm_sport b; homeTeam = pm_homeTeam b; awayTeam = pm_awayTeam b;
          startTime = pm_startTime b
      in if \<not> truthy_str sport \<or> \<not> truthy_str homeTeam \<or> \<not> truthy_str awayTeam
            \<or> \<not> truthy_str startTime
         then (Response 400
                 (Failure ''Missing required fields: sport, homeTeam, awayTeam, startTime''),
               db)
         else
           (case insert_match now
                   \<lparr>v_sport = sport, v_homeTeam = homeTeam, v_awayTeam = awayTeam,
                    v_startTime = new_Date parse startTime, v_status = ''scheduled''\<rparr> db of
              Inl e \<Rightarrow> (Response 400 (Failure_thrown e), db)
            | Inr (newMatch, db') \<Rightarrow>
                (Response 201 (Success_data (One_match newMatch)), db')))"

subsection \<open>PUT /matches/:id\<close>

record put_match_body =
  um_status :: "string jsfield"
  um_homeScore :: "int jsfield"
  um_awayScore :: "int jsfield"
  um_endTime :: "string jsfield"

text \<open>\<open>updateData\<close>: a key that was never assigned is \<open>Undefined\<close>.\<close>

record match_update =
  set_status :: "string jsfield"
  set_homeScore :: "int jsfield"
  set_awayScore :: "int jsfield"
  set_endTime :: "int option jsfield"

definition empty_match_update :: match_update where
  "empty_match_update =
     \<lparr>set_status = Undefined, set_homeScore = Undefined, set_awayScore = Undefined,
      set_endTime = Undefined\<rparr>"

text \<open>What an update does to one column: leave it, or store a value (\<open>None\<close> is SQL
  \<open>NULL\<close>).\<close>

datatype 'a assignment = Unchanged | Set_to "'a option"

fun assign_status :: "string jsfield \<Rightarrow> thrown + match_status assignment" where
  "assign_status Undefined = Inr Unchanged"
| "assign_status Null = Inr (Set_to None)"
| "assign_status (Val s) = and_then (to_status s) (\<lambda>st. Inr (Set_to (Some st)))"

fun assign_int4 :: "int jsfield \<Rightarrow> thrown + int4 assignment" where
  "assign_int4 Undefined = Inr Unchanged"
| "assign_int4 Null = Inr (Set_to None)"
| "assign_int4 (Val n) = and_then (int4_param (Some n)) (\<lambda>w. Inr (Set_to (Some w)))"

fun assign_timestamp :: "int option jsfield \<Rightarrow> thrown + timestamp assignment" where
  "assign_timestamp Undefined = Inr Unchanged"
| "assign_timestamp Null = Inr (Set_to None)"
| "assign_timestamp (Val d) = and_then (to_timestamp d) (\<lambda>t. Inr (Set_to (Some t)))"

text \<open>The new value of a \<open>notNull\<close> column and of a nullable one.\<close>

fun assigned :: "'a assignment \<Rightarrow> 'a \<Rightarrow> 'a" where
  "assigned (Set_to (Some v)) old = v"
| "assigned _ old = old"

fun assigned_nullable :: "'a assignment \<Rightarrow> 'a option \<Rightarrow> 'a option" where
  "assigned_nullable Unchanged old = old"
| "assigned_nullable (Set_to v) old = v"

text \<open>
  \<open>db.update(matchesTable).set(u).where(eq(matchesTable.id, v)).returning()\<close>.
  \<open>.set\<close> throws when no key of \<open>u\<close> is defined. The parameters are then encoded and
  bound: an invalid date, a status that is no label, a score or an id outside the integer
  range are rejected whether or not a row matches. \<open>NULL\<close> for a \<open>notNull\<close> column is
  rejected when a row is to be changed. A rejected update changes nothing; an accepted one
  rewrites the rows with the given id and returns them.
\<close>

definition update_matches ::
  "match_update \<Rightarrow> int option \<Rightarrow> db_state \<Rightarrow> thrown + (match_row list \<times> db_state)" where
  "update_matches u v db =
     (if set_status u = Undefined \<and> set_homeScore u = Undefined
           \<and> set_awayScore u = Undefined \<and> set_endTime u = Undefined
      then Inl No_values_to_set
      else
        and_then (assign_timestamp (set_endTime u)) (\<lambda>et.
        and_then (assign_status (set_status u)) (\<lambda>st.
        and_then (assign_int4 (set_homeScore u)) (\<lambda>hs.
        and_then (assign_int4 (set_awayScore u)) (\<lambda>as.
        and_then (int4_param v) (\<lambda>w.
          if list_ex (\<lambda>m. m_id m = w) (matches db)
               \<and> (st = Set_to None \<or> hs = Set_to None \<or> as = Set_to None)
          then Inl Storage_error
          else
            let change = (\<lambda>m. m\<lparr>m_status := assigned st (m_status m),
                                 m_homeScore := assigned hs (m_homeScore m),
                                 m_awayScore := assigned as (m_awayScore m),
                                 m_endTime := assigned_nullable et (m_endTime m)\<rparr>)
            in Inr (map change (filter (\<lambda>m. m_id m = w) (matches db)),
                    db\<lparr>matches :=
                         map (\<lambda>m. if m_id m = w then change m else m) (matches db)\<rparr>)))))))"

definition put_matches ::
  "(string \<Rightarrow> int option) \<Rightarrow> string \<Rightarrow> put_match_body \<Rightarrow> db_state
     \<Rightarrow> response \<times> db_state" where
  "put_matches parse id' b db =
     (let status = um_status b; homeScore = um_homeScore b; awayScore = um_awayScore b;
          endTime = um_endTime b;
          updateData = empty_match_update;
          updateData = (if status \<noteq> Undefined
                        then updateData\<lparr>set_status := status\<rparr> else updateData);
          updateData = (if homeScore \<noteq> Undefined
                        then updateData\<lparr>set_homeScore := homeScore\<rparr> else updateData);
          updateData = (if awayScore \<noteq> Undefined
                        then updateData\<lparr>set_awayScore := awayScore\<rparr> else updateData);
          updateData = (if endTime \<noteq> Undefined
                        then updateData\<lparr>set_endTime := Val (new_Date parse endTime)\<rparr>
                        else updateData)
      in case update_matches updateData (parseInt id') db of
           Inl e \<Rightarrow> (Response 400 (Failure_thrown e), db)
         | Inr (updated, db') \<Rightarrow>
             (case updated of
                [] \<Rightarrow> (Response 404 (Failure ''Match not found''), db')
              | updatedMatch # _ \<Rightarrow>
                  (Response 200 (Success_data (One_match updatedMatch)), db')))"

subsection \<open>DELETE /matches/:id\<close>

text \<open>
  \<open>db.delete(matchesTable).where(eq(matchesTable.id, v))\<close>. The foreign key of
  \<open>commentaryTable.matchId\<close> is declared \<open>onDelete: 'cascade'\<close>: the commentary rows that
  reference a deleted match are deleted with it.
\<close>

definition delete_from_matches :: "int option \<Rightarrow> db_state \<Rightarrow> thrown + db_state" where
  "delete_from_matches v db =
     and_then (int4_param v) (\<lambda>w.
       let deleted = map m_id (filter (\<lambda>m. m_id m = w) (matches db))
       in Inr (db\<lparr>matches := filter (\<lambda>m. m_id m \<noteq> w) (matches db),
                   commentary :=
                     filter (\<lambda>c. c_matchId c \<notin> set deleted) (commentary db)\<rparr>))"

definition delete_matches :: "string \<Rightarrow> db_state \<Rightarrow> response \<times> db_state" where
  "delete_matches id' db =
     (case delete_from_matches (parseInt id') db of
        Inl e \<Rightarrow> (Response 400 (Failure_thrown e), db)
      | Inr db' \<Rightarrow> (Response 200 (Success_message ''Match deleted successfully''), db'))"

subsection \<open>GET /matches/:matchId/commentary\<close>

text \<open>\<open>orderBy(desc(column))\<close>: the rows by descending key; the order among rows of equal
  key is the storage layer's and is not relied on below.\<close>

definition order_by_desc :: "('a \<Rightarrow> int) \<Rightarrow> 'a list \<Rightarrow> 'a list" where
  "order_by_desc key rows = rev (sort_key key rows)"

definition select_commentary :: "int option \<Rightarrow> db_state \<Rightarrow> thrown + commentary_row list" where
  "select_commentary v db =
     and_then (int4_param v) (\<lambda>w.
       Inr (order_by_desc c_createdAt (filter (\<lambda>c. c_matchId c = w) (commentary db))))"

definition get_commentary :: "string \<Rightarrow> db_state \<Rightarrow> response \<times> db_state" where
  "get_commentary matchId db =
     (case select_commentary (parseInt matchId) db of
        Inl e \<Rightarrow> (Response 400 (Failure_thrown e), db)
      | Inr rows \<Rightarrow> (Response 200 (Success_data (Many_commentary rows)), db))"

subsection \<open>POST /matches/:matchId/commentary\<close>

record post_commentary_body =
  pc_minute :: "int jsfield"
  pc_sequence :: "int jsfield"
  pc_period :: "string jsfield"
  pc_eventType :: "string jsfield"
  pc_actor :: "string jsfield"
  pc_team :: "string jsfield"
  pc_message :: "string jsfield"
  pc_metadata :: "json option"
  pc_tags :: "string list jsfield"

record commentary_values =
  cv_matchId :: "int option"
  cv_minute :: "int jsfield"
  cv_sequence :: "int jsfield"
  cv_period :: "string jsfield"
  cv_eventType :: "string jsfield"
  cv_actor :: "string jsfield"
  cv_team :: "string jsfield"
  cv_message :: "string jsfield"
  cv_metadata :: "json option"
  cv_tags :: "string list jsfield"

text \<open>Values for the nullable columns and the \<open>notNull\<close> ones of the commentary table;
  \<open>null\<close> and a missing key store \<open>NULL\<close>.\<close>

fun nullable_int4 :: "int jsfield \<Rightarrow> thrown + int4 option" where
  "nullable_int4 (Val n) = and_then (int4_param (Some n)) (\<lambda>w. Inr (Some w))"
| "nullable_int4 _ = Inr None"

fun notnull_int4 :: "int jsfield \<Rightarrow> thrown + int4" where
  "notnull_int4 (Val n) = int4_param (Some n)"
| "notnull_int4 _ = Inl Storage_error"

fun nullable_varchar :: "nat \<Rightarrow> string jsfield \<Rightarrow> thrown + string option" where
  "nullable_varchar n (Val s) = and_then (to_varchar n s) (\<lambda>t. Inr (Some t))"
| "nullable_varchar n _ = Inr None"

fun notnull_text :: "string jsfield \<Rightarrow> thrown + string" where
  "notnull_text (Val s) = Inr s"
| "notnull_text _ = Inl Storage_error"

text \<open>
  A value for the \<open>jsonb\<close> column \<open>metadata\<close>: \<open>null\<close> and a missing key store \<open>NULL\<close>.
  Another value \<open>j\<close> is written as JSON text; the database keeps it in the normal form of
  \<open>jsonb\<close> (object keys ordered, duplicate keys dropped), and the query builder's decoder
  for the column parses a result that is a string as JSON once more when it can, so that
  the string \<open>"123"\<close> written to the column is read back as the number \<open>123\<close>. What is
  read back for a written \<open>j\<close> is a parameter \<open>decode\<close> of the statements and handlers
  that write the column; the row keeps \<open>decode j\<close>.
\<close>

fun to_jsonb :: "(json \<Rightarrow> json) \<Rightarrow> json option \<Rightarrow> json option" where
  "to_jsonb decode None = None"
| "to_jsonb decode (Some JNull) = None"
| "to_jsonb decode (Some j) = Some (decode j)"

fun nullable_array :: "string list jsfield \<Rightarrow> string list option" where
  "nullable_array (Val xs) = Some xs"
| "nullable_array _ = None"

text \<open>The row that \<open>.values(v)\<close> describes, with \<open>id\<close> the value \<open>next\<close> drawn from the
  sequence and \<open>createdAt\<close> the time \<open>now\<close> of the statement, when every value is
  accepted by its column.\<close>

definition commentary_row_of ::
  "(json \<Rightarrow> json) \<Rightarrow> timestamp \<Rightarrow> int \<Rightarrow> commentary_values \<Rightarrow> thrown + commentary_row" where
  "commentary_row_of decode now next v =
     and_then (int4_param (cv_matchId v)) (\<lambda>mid.
     and_then (nullable_int4 (cv_minute v)) (\<lambda>minute.
     and_then (notnull_int4 (cv_sequence v)) (\<lambda>sequence.
     and_then (nullable_varchar 20 (cv_period v)) (\<lambda>period.
     and_then (notnull_varchar 50 (cv_eventType v)) (\<lambda>eventType.
     and_then (notnull_varchar 100 (cv_actor v)) (\<lambda>actor.
     and_then (notnull_varchar 100 (cv_team v)) (\<lambda>team.
     and_then (notnull_text (cv_message v)) (\<lambda>message.
     and_then (int4_param (Some next)) (\<lambda>i.
       Inr \<lparr>c_id = i, c_matchId = mid, c_minute = minute, c_sequence = sequence,
            c_period = period, c_eventType = eventType, c_actor = actor,
            c_team = team, c_message = message,
            c_metadata = to_jsonb decode (cv_metadata v),
            c_tags = nullable_array (cv_tags v), c_createdAt = now\<rparr>)))))))))"

text \<open>
  \<open>db.insert(commentaryTable).values(v).returning()\<close>: \<open>id\<close> and \<open>createdAt\<close> take their
  defaults. The foreign key \<open>matchId\<close> \<open>references(() => matchesTable.id)\<close>: a row whose
  \<open>matchId\<close> is the id of no match is rejected. A rejected insert stores no row. The
  foreign key is checked on the row that was formed, after its id was drawn: an insert it
  rejects has consumed a value of the sequence, which is not given back.
\<close>

definition insert_commentary ::
  "(json \<Rightarrow> json) \<Rightarrow> timestamp \<Rightarrow> commentary_values \<Rightarrow> db_state
     \<Rightarrow> (thrown + commentary_row) \<times> db_state" where
  "insert_commentary decode now v db =
     (case commentary_row_of decode now (commentary_id_seq db) v of
        Inl e \<Rightarrow> (Inl e, db)
      | Inr row \<Rightarrow>
          let drawn = db\<lparr>commentary_id_seq := commentary_id_seq db + 1\<rparr>
          in if c_matchId row \<in> set (map m_id (matches db))
             then (Inr row, drawn\<lparr>commentary := commentary db @ [row]\<rparr>)
             else (Inl Storage_error, drawn))"

definition post_commentary ::
  "(json \<Rightarrow> json) \<Rightarrow> timestamp \<Rightarrow> string \<Rightarrow> post_commentary_body \<Rightarrow> db_state
     \<Rightarrow> response \<times> db_state" where
  "post_commentary decode now matchId b db =
     (let minute = pc_minute b; sequence = pc_sequence b; period = pc_period b;
          eventType = pc_eventType b; actor = pc_actor b; team = pc_team b;
          message = pc_message b; metadata = pc_metadata b; tags = pc_tags b
      in if \<not> truthy_num sequence \<or> \<not> truthy_str eventType \<or> \<not> truthy_str actor
            \<or> \<not> truthy_str team \<or> \<not> truthy_str message
         then (Response 400
                 (Failure
                    ''Missing required fields: sequence, eventType, actor, team, message''),
               db)
         else
           (case insert_commentary decode now
                   \<lparr>cv_matchId = parseInt matchId,
                    cv_minute = (if truthy_num minute then minute else Null),
                    cv_sequence = sequence,
                    cv_period = (if truthy_str period then period else Null),
                    cv_eventType = eventType, cv_actor = actor, cv_team = team,
                    cv_message = message,
                    cv_metadata = (if truthy_json metadata then metadata else Some JNull),
                    cv_tags = (if truthy_arr tags then tags else Val [])\<rparr> db of
              (Inl e, db') \<Rightarrow> (Response 400 (Failure_thrown e), db')
            | (Inr newCommentary, db') \<Rightarrow>
                (Response 201 (Success_data (One_commentary newCommentary)), db')))"

subsection \<open>PUT /commentary/:id\<close>

record put_commentary_body =
  uc_message :: "string jsfield"
  uc_metadata :: "json option"

record commentary_update =
  set_message :: "string jsfield"
  set_metadata :: "json option"

definition empty_commentary_update :: commentary_update where
  "empty_commentary_update = \<lparr>set_message = Undefined, set_metadata = None\<rparr>"

fun assign_text :: "string jsfield \<Rightarrow> string assignment" where
  "assign_text Undefined = Unchanged"
| "assign_text Null = Set_to None"
| "assign_text (Val s) = Set_to (Some s)"

fun assign_jsonb :: "(json \<Rightarrow> json) \<Rightarrow> json option \<Rightarrow> json assignment" where
  "assign_jsonb decode None = Unchanged"
| "assign_jsonb decode (Some j) = Set_to (to_jsonb decode (Some j))"

text \<open>\<open>db.update(commentaryTable).set(u).where(eq(commentaryTable.id, v)).returning()\<close>,
  as for matches; \<open>message\<close> is \<open>notNull\<close>, \<open>metadata\<close> is nullable and a written value
  is kept, and returned, as it is read back.\<close>

definition update_commentary ::
  "(json \<Rightarrow> json) \<Rightarrow> commentary_update \<Rightarrow> int option \<Rightarrow> db_state
     \<Rightarrow> thrown + (commentary_row list \<times> db_state)" where
  "update_commentary decode u v db =
     (if set_message u = Undefined \<and> set_metadata u = None
      then Inl No_values_to_set
      else
        and_then (int4_param v) (\<lambda>w.
          let msg = assign_text (set_message u);
              md = assign_jsonb decode (set_metadata u)
          in if list_ex (\<lambda>c. c_id c = w) (commentary db) \<and> msg = Set_to None
             then Inl Storage_error
             else
               let change = (\<lambda>c. c\<lparr>c_message := assigned msg (c_message c),
                                    c_metadata := assigned_nullable md (c_metadata c)\<rparr>)
               in Inr (map change (filter (\<lambda>c. c_id c = w) (commentary db)),
                       db\<lparr>commentary :=
                            map (\<lambda>c. if c_id c = w then change c else c) (commentary db)\<rparr>)))"

definition put_commentary ::
  "(json \<Rightarrow> json) \<Rightarrow> string \<Rightarrow> put_commentary_body \<Rightarrow> db_state
     \<Rightarrow> response \<times> db_state" where
  "put_commentary decode id' b db =
     (let message = uc_message b; metadata = uc_metadata b;
          updateData = empty_commentary_update;
          updateData = (if message \<noteq> Undefined
                        then updateData\<lparr>set_message := message\<rparr> else updateData);
          updateData = (if metadata \<noteq> None
                        then updateData\<lparr>set_metadata := metadata\<rparr> else updateData)
      in case update_commentary decode updateData (parseInt id') db of
           Inl e \<Rightarrow> (Response 400 (Failure_thrown e), db)
         | Inr (updated, db') \<Rightarrow>
             (case updated of
                [] \<Rightarrow> (Response 404 (Failure ''Commentary not found''), db')
              | updatedCommentary # _ \<Rightarrow>
                  (Response 200 (Success_data (One_commentary updatedCommentary)), db')))"

subsection \<open>DELETE /commentary/:id\<close>

definition delete_from_commentary :: "int option \<Rightarrow> db_state \<Rightarrow> thrown + db_state" where
  "delete_from_commentary v db =
     and_then (int4_param v) (\<lambda>w.
       Inr (db\<lparr>commentary := filter (\<lambda>c. c_id c \<noteq> w) (commentary db)\<rparr>))"

definition delete_commentary :: "string \<Rightarrow> db_state \<Rightarrow> response \<times> db_state" where
  "delete_commentary id' db =
     (case delete_from_commentary (parseInt id') db of
        Inl e \<Rightarrow> (Response 400 (Failure_thrown e), db)
      | Inr db' \<Rightarrow>
          (Response 200 (Success_message ''Commentary deleted successfully''), db'))"

section \<open>Example states and requests\<close>

definition example_match :: "int4 \<Rightarrow> string \<Rightarrow> match_status \<Rightarrow> match_row" where
  "example_match i sport st =
     \<lparr>m_id = i, m_sport = sport, m_homeTeam = ''A'', m_awayTeam = ''B'', m_status = st,
      m_startTime = 1767261600000, m_endTime = None, m_homeScore = 0, m_awayScore = 0,
      m_createdAt = 1767000000000\<rparr>"

definition example_comment :: "int4 \<Rightarrow> int4 \<Rightarrow> timestamp \<Rightarrow> commentary_row" where
  "example_comment i mid t =
     \<lparr>c_id = i, c_matchId = mid, c_minute = Some 12, c_sequence = 1, c_period = None,
      c_eventType = ''goal'', c_actor = ''Ada'', c_team = ''A'', c_message = ''Goal!'',
      c_metadata = None, c_tags = Some [], c_createdAt = t\<rparr>"

definition empty_db :: db_state where
  "empty_db = \<lparr>matches = [], commentary = [], matches_id_seq = 1, commentary_id_seq = 1\<rparr>"

definition example_db :: db_state where
  "example_db =
     \<lparr>matches = [example_match 1 ''football'' Scheduled, example_match 2 ''football'' Live,
                 example_match 3 ''tennis'' Live],
      commentary = [example_comment 1 2 100, example_comment 2 2 300,
                    example_comment 3 3 200, example_comment 4 2 200],
      matches_id_seq = 4, commentary_id_seq = 5\<rparr>"

text \<open>A \<open>Date.parse\<close> that knows one ISO date.\<close>

definition example_parse :: "string \<Rightarrow> int option" where
  "example_parse s = (if s = ''2026-01-01T10:00:00Z'' then Some 1767261600000 else None)"

definition example_post_match :: post_match_body where
  "example_post_match =
     \<lparr>pm_sport = Val ''football'', pm_homeTeam = Val ''A'', pm_awayTeam = Val ''B'',
      pm_startTime = Val ''2026-01-01T10:00:00Z'', pm_status = Val ''finished''\<rparr>"

definition example_post_commentary :: post_commentary_body where
  "example_post_commentary =
     \<lparr>pc_minute = Undefined, pc_sequence = Val 1, pc_period = Undefined,
      pc_eventType = Val ''goal'', pc_actor = Val ''Ada'', pc_team = Val ''A'',
      pc_message = Val ''Goal!'', pc_metadata = None, pc_tags = Undefined\<rparr>"

text \<open>A sport name of 51 characters.\<close>

definition long_sport :: string where
  "long_sport = replicate 51 CHR ''a''"

definition no_match_fields :: put_match_body where
  "no_match_fields =
     \<lparr>um_status = Undefined, um_homeScore = Undefined, um_awayScore = Undefined,
      um_endTime = Undefined\<rparr>"

definition no_commentary_fields :: put_commentary_body where
  "no_commentary_fields = \<lparr>uc_message = Undefined, uc_metadata = None\<rparr>"

definition status_live_only :: put_match_body where
  "status_live_only =
     \<lparr>um_status = Val ''live'', um_homeScore = Undefined, um_awayScore = Undefined,
      um_endTime = Undefined\<rparr>"

definition score_update :: put_match_body where
  "score_update =
     \<lparr>um_status = Val ''finished'', um_homeScore = Val 2, um_awayScore = Undefined,
      um_endTime = Undefined\<rparr>"

definition message_update :: put_commentary_body where
  "message_update = \<lparr>uc_message = Val ''Corrected'', uc_metadata = None\<rparr>"

text \<open>A decoder that knows the string \<open>"123"\<close>, read back as the number.\<close>

definition example_decode :: "json \<Rightarrow> json" where
  "example_decode j = (if j = JStr ''123'' then JNum 123 else j)"

definition metadata_update :: put_commentary_body where
  "metadata_update = \<lparr>uc_message = Undefined, uc_metadata = Some (JStr ''123'')\<rparr>"

text \<open>The example commentary request with \<open>sequence: 0\<close>.\<close>

definition sequence_zero :: post_commentary_body where
  "sequence_zero = example_post_commentary\<lparr>pc_sequence := Val 0\<rparr>"

section \<open>Properties\<close>

subsection \<open>Listing matches\<close>

text \<open>
  C1. GET /matches with both \<open>status\<close> and \<open>sport\<close> is claimed to return exactly the
  rows that have the given status and the given sport. The handler calls \<open>.where\<close> once
  per filter on the same query, and the second call replaces the condition of the first:
  with \<open>status=live&sport=football\<close> on a table holding a scheduled football match, a
  live football match and a live tennis match, the response lists both football matches,
  the scheduled one included, where the claim allows only the live football match.
\<close>

theorem get_matches_status_and_sport_keeps_sport_only:
  "fst (get_matches (Some ''live'') (Some ''football'') example_db) =
     Response 200 (Success_data (Many_matches
       [example_match 1 ''football'' Scheduled, example_match 2 ''football'' Live]))
   \<and> filter (\<lambda>m. m_status m = Live \<and> m_sport m = ''football'') (matches example_db) =
       [example_match 2 ''football'' Live]"
  by (simp add: get_matches_def select_from_matches_def qb_where_def run_select_matches_def
      and_then_def example_db_def example_match_def)

subsection \<open>Creating a match\<close>

text \<open>
  C8. A POST /matches request in which one of \<open>sport\<close>, \<open>homeTeam\<close>, \<open>awayTeam\<close>,
  \<open>startTime\<close> is missing or falsy (\<open>undefined\<close>, \<open>null\<close> or the empty string) is
  answered with 400 and the validation message, and the stored state is the one before
  the request.
\<close>

theorem post_matches_missing_field:
  assumes "f \<in> {pm_sport b, pm_homeTeam b, pm_awayTeam b, pm_startTime b}"
    and "f = Undefined \<or> f = Null \<or> f = Val ''''"
  shows "post_matches parse now b db =
     (Response 400
        (Failure ''Missing required fields: sport, homeTeam, awayTeam, startTime''), db)"
proof -
  from assms(2) have "\<not> truthy_str f" by auto
  with assms(1) have "\<not> truthy_str (pm_sport b) \<or> \<not> truthy_str (pm_homeTeam b)
      \<or> \<not> truthy_str (pm_awayTeam b) \<or> \<not> truthy_str (pm_startTime b)"
    by auto
  then show ?thesis
    unfolding post_matches_def Let_def by (simp only: if_True)
qed

theorem post_matches_missing_field_witness:
  "Undefined \<in> {pm_sport (example_post_match\<lparr>pm_awayTeam := Undefined\<rparr>),
       pm_homeTeam (example_post_match\<lparr>pm_awayTeam := Undefined\<rparr>),
       pm_awayTeam (example_post_match\<lparr>pm_awayTeam := Undefined\<rparr>),
       pm_startTime (example_post_match\<lparr>pm_awayTeam := Undefined\<rparr>)}
   \<and> post_matches example_parse 0 (example_post_match\<lparr>pm_awayTeam := Undefined\<rparr>)
         example_db =
     (Response 400
        (Failure ''Missing required fields: sport, homeTeam, awayTeam, startTime''),
      example_db)"
  using post_matches_missing_field
    [of Undefined "example_post_match\<lparr>pm_awayTeam := Undefined\<rparr>" example_parse 0 example_db]
  by simp

subsection \<open>Updates with an empty field set\<close>

text \<open>
  C10. A PUT /matches/:id whose body has none of \<open>status\<close>, \<open>homeScore\<close>, \<open>awayScore\<close>,
  \<open>endTime\<close>, and a PUT /commentary/:id whose body has neither \<open>message\<close> nor
  \<open>metadata\<close>, are answered with 400 (the error the query builder throws on an empty
  \<open>set\<close>), whatever the id, and nothing stored changes.
\<close>

theorem put_without_updatable_field:
  "(um_status mb = Undefined \<and> um_homeScore mb = Undefined \<and> um_awayScore mb = Undefined
      \<and> um_endTime mb = Undefined
    \<longrightarrow> put_matches parse mid mb db = (Response 400 (Failure_thrown No_values_to_set), db))
   \<and> (uc_message cb = Undefined \<and> uc_metadata cb = None
    \<longrightarrow> put_commentary decode cid cb db =
          (Response 400 (Failure_thrown No_values_to_set), db))"
  by (simp add: put_matches_def put_commentary_def update_matches_def update_commentary_def
      empty_match_update_def empty_commentary_update_def)

theorem put_without_updatable_field_witness:
  "put_matches example_parse ''2'' no_match_fields example_db =
     (Response 400 (Failure_thrown No_values_to_set), example_db)
   \<and> put_commentary example_decode ''1'' no_commentary_fields example_db =
     (Response 400 (Failure_thrown No_values_to_set), example_db)"
  using put_without_updatable_field
    [of no_match_fields example_parse "''2''" example_db no_commentary_fields
      example_decode "''1''"]
  by (simp add: no_match_fields_def no_commentary_fields_def)

subsection \<open>Helper facts on the storage layer\<close>

lemma to_varchar_fits: "length s \<le> n \<Longrightarrow> to_varchar n s = Inr s"
  by (simp add: to_varchar_def)

lemma int4_param_in_range: "int4_range k \<Longrightarrow> int4_param (Some k) = Inr (word_of_int k)"
  by (simp add: int4_param_def to_int4_def)

subsection \<open>Creating a match, continued\<close>

text \<open>
  C2, as stated: every POST /matches request in which \<open>sport\<close>, \<open>homeTeam\<close>,
  \<open>awayTeam\<close> and \<open>startTime\<close> are all present is answered with 201 and the created row.
  It fails on a request with all four present whose \<open>sport\<close> has 51 characters: the
  column is \<open>varchar(50)\<close>, the insert is rejected, the handler answers 400 and nothing
  is stored.
\<close>

theorem post_matches_too_long_sport_rejected:
  "pm_sport (example_post_match\<lparr>pm_sport := Val long_sport\<rparr>) \<noteq> Undefined
   \<and> pm_homeTeam (example_post_match\<lparr>pm_sport := Val long_sport\<rparr>) \<noteq> Undefined
   \<and> pm_awayTeam (example_post_match\<lparr>pm_sport := Val long_sport\<rparr>) \<noteq> Undefined
   \<and> pm_startTime (example_post_match\<lparr>pm_sport := Val long_sport\<rparr>) \<noteq> Undefined
   \<and> post_matches example_parse 0 (example_post_match\<lparr>pm_sport := Val long_sport\<rparr>)
         empty_db =
       (Response 400 (Failure_thrown Storage_error), empty_db)"
  by (simp add: post_matches_def insert_match_def and_then_def notnull_varchar_def
      to_varchar_def to_timestamp_def example_post_match_def example_parse_def long_sport_def)

text \<open>
  C2, amended: when \<open>sport\<close>, \<open>homeTeam\<close>, \<open>awayTeam\<close> and \<open>startTime\<close> are non-empty
  strings, \<open>sport\<close> has at most 50 and each team name at most 100 characters,
  \<open>startTime\<close> parses to a valid date and the id sequence is inside the integer range,
  the handler answers 201 with the created row and appends that row to the table. The row
  has status \<open>scheduled\<close> whatever \<open>status\<close> the body carries (\<open>pm_status b\<close> is
  unconstrained), the id drawn from the sequence, both scores 0, no end time, and the
  creation time of the statement.
\<close>

theorem post_matches_creates_scheduled:
  assumes "pm_sport b = Val sport" and "pm_homeTeam b = Val home"
    and "pm_awayTeam b = Val away" and "pm_startTime b = Val start"
    and "sport \<noteq> []" and "home \<noteq> []" and "away \<noteq> []" and "start \<noteq> []"
    and "length sport \<le> 50" and "length home \<le> 100" and "length away \<le> 100"
    and "parse start = Some t"
    and "int4_range (matches_id_seq db)"
  shows "post_matches parse now b db =
     (let row = \<lparr>m_id = word_of_int (matches_id_seq db), m_sport = sport, m_homeTeam = home,
                 m_awayTeam = away, m_status = Scheduled, m_startTime = t, m_endTime = None,
                 m_homeScore = 0, m_awayScore = 0, m_createdAt = now\<rparr>
      in (Response 201 (Success_data (One_match row)),
          db\<lparr>matches := matches db @ [row], matches_id_seq := matches_id_seq db + 1\<rparr>))"
  using assms
  by (simp add: post_matches_def insert_match_def and_then_def notnull_varchar_def
      to_varchar_fits to_timestamp_def to_status_def status_label_def to_int4_def Let_def)

theorem post_matches_creates_scheduled_witness:
  "post_matches example_parse 5 example_post_match example_db =
     (let row = \<lparr>m_id = 4, m_sport = ''football'', m_homeTeam = ''A'', m_awayTeam = ''B'',
                 m_status = Scheduled, m_startTime = 1767261600000, m_endTime = None,
                 m_homeScore = 0, m_awayScore = 0, m_createdAt = 5\<rparr>
      in (Response 201 (Success_data (One_match row)),
          example_db\<lparr>matches := matches example_db @ [row], matches_id_seq := 5\<rparr>))"
  using post_matches_creates_scheduled [of example_post_match "''football''" "''A''" "''B''"
      "''2026-01-01T10:00:00Z''" example_parse 1767261600000 example_db 5]
  by (simp add: example_post_match_def example_parse_def example_db_def int4_range_def)

subsection \<open>Creating commentary\<close>

text \<open>
  C3. A POST /matches/:matchId/commentary request in which \<open>sequence\<close>, \<open>eventType\<close>,
  \<open>actor\<close>, \<open>team\<close> and \<open>message\<close> are all present is claimed not to get the
  missing-fields error but to insert and return the row. The handler tests \<open>!sequence\<close>,
  and \<open>0\<close>, a value the \<open>notNull\<close> integer column \<open>sequence\<close> accepts, is falsy: the
  request for the existing match 2 with \<open>sequence: 0\<close> and the four strings present is
  answered with 400 and the missing-fields message and stores nothing, where the same
  request with \<open>sequence: 1\<close> is answered with 201 and the created row.
\<close>

theorem post_commentary_sequence_zero_missing_fields:
  "pc_sequence sequence_zero = Val 0
   \<and> pc_eventType sequence_zero = Val ''goal'' \<and> pc_actor sequence_zero = Val ''Ada''
   \<and> pc_team sequence_zero = Val ''A'' \<and> pc_message sequence_zero = Val ''Goal!''
   \<and> post_commentary example_decode 500 ''2'' sequence_zero example_db =
       (Response 400
          (Failure ''Missing required fields: sequence, eventType, actor, team, message''),
        example_db)
   \<and> fst (post_commentary example_decode 500 ''2'' example_post_commentary example_db) =
       Response 201 (Success_data (One_commentary
         \<lparr>c_id = 5, c_matchId = 2, c_minute = None, c_sequence = 1, c_period = None,
          c_eventType = ''goal'', c_actor = ''Ada'', c_team = ''A'', c_message = ''Goal!'',
          c_metadata = None, c_tags = Some [], c_createdAt = 500\<rparr>))"
  by (simp add: post_commentary_def insert_commentary_def commentary_row_of_def
      and_then_def int4_param_def to_int4_def int4_range_def parseInt_def strip_sign_def
      strip_radix_def is_ws_def is_digit_def digit_val_def notnull_varchar_def
      to_varchar_def sequence_zero_def example_post_commentary_def example_db_def
      example_match_def)

theorem post_commentary_sequence_zero_missing_fields_witness:
  "snd (post_commentary example_decode 500 ''2'' sequence_zero example_db) = example_db
   \<and> fst (post_commentary example_decode 500 ''2'' sequence_zero example_db) =
       Response 400
         (Failure ''Missing required fields: sequence, eventType, actor, team, message'')"
  using post_commentary_sequence_zero_missing_fields by simp

subsection \<open>Helper facts on ids and ordering\<close>

lemma int4_param_sint: "int4_param (Some (sint (w::int4))) = Inr w"
proof -
  have "int4_range (sint w)"
    using sint_ge [of w] sint_lt [of w] by (simp add: int4_range_def)
  then show ?thesis
    by (simp add: int4_param_def to_int4_def)
qed

lemmas parseInt_eval = parseInt_def strip_sign_def strip_radix_def is_ws_def is_digit_def
  digit_val_def

lemma ids_of_matching_rows:
  assumes "m \<in> set ms"
  shows "set (map m_id (filter (\<lambda>x. m_id x = m_id m) ms)) = {m_id m}"
  using assms by auto

lemma order_by_desc_sorted:
  "sorted_wrt (\<lambda>a b. key a \<ge> key b) (order_by_desc key rows)"
  using sorted_sort_key [of key rows]
  by (simp add: order_by_desc_def sorted_wrt_rev sorted_map)

lemma order_by_desc_mset: "mset (order_by_desc key rows) = mset rows"
  by (simp add: order_by_desc_def)

subsection \<open>Deleting\<close>

text \<open>
  C4. Deleting a match by its id (the path parameter parses to the id of a stored match
  \<open>m\<close>) answers 200; afterwards the matches table is the old one without the rows of that
  id, so \<open>m\<close> is gone and every other match is kept; the commentary table is the old one
  without the rows whose \<open>matchId\<close> is that id, so all commentary of the match is gone
  and the commentary of other matches is kept; and GET /matches/:matchId/commentary for
  that id then answers 200 with the empty list.
\<close>

theorem delete_matches_cascades:
  assumes "m \<in> set (matches db)" and "parseInt id' = Some (sint (m_id m))"
  shows "\<exists>db'. delete_matches id' db =
        (Response 200 (Success_message ''Match deleted successfully''), db')
      \<and> matches db' = filter (\<lambda>x. m_id x \<noteq> m_id m) (matches db)
      \<and> m \<notin> set (matches db')
      \<and> commentary db' = filter (\<lambda>c. c_matchId c \<noteq> m_id m) (commentary db)
      \<and> get_commentary id' db' = (Response 200 (Success_data (Many_commentary [])), db')"
proof -
  have ids: "set (map m_id (filter (\<lambda>x. m_id x = m_id m) (matches db))) = {m_id m}"
    using assms(1) by (rule ids_of_matching_rows)
  have sorted_nil: "order_by_desc c_createdAt ([] :: commentary_row list) = []"
    by (simp add: order_by_desc_def)
  have none_left: "filter (\<lambda>c. c_matchId c = m_id m)
      (filter (\<lambda>c. c_matchId c \<noteq> m_id m) (commentary db)) = []"
    by (simp add: filter_empty_conv)
  have gone: "m \<notin> set (filter (\<lambda>x. m_id x \<noteq> m_id m) (matches db))"
    by simp
  show ?thesis
    using assms(2) ids gone
    by (simp add: delete_matches_def delete_from_matches_def get_commentary_def
        select_commentary_def and_then_def int4_param_sint none_left sorted_nil
        del: set_map set_filter)
qed

theorem delete_matches_cascades_witness:
  "\<exists>db'. delete_matches ''2'' example_db =
        (Response 200 (Success_message ''Match deleted successfully''), db')
      \<and> matches db' = [example_match 1 ''football'' Scheduled, example_match 3 ''tennis'' Live]
      \<and> commentary db' = [example_comment 3 3 200]
      \<and> get_commentary ''2'' db' = (Response 200 (Success_data (Many_commentary [])), db')"
proof -
  have "example_match 2 ''football'' Live \<in> set (matches example_db)"
    by (simp add: example_db_def)
  moreover have "parseInt ''2'' = Some (sint (m_id (example_match 2 ''football'' Live)))"
    by (simp add: parseInt_eval example_match_def)
  ultimately show ?thesis
    using delete_matches_cascades [of "example_match 2 ''football'' Live" example_db "''2''"]
    by (simp add: example_db_def example_match_def example_comment_def) blast
qed

text \<open>
  C9, as stated: every DELETE /matches/:id and DELETE /commentary/:id with a parseable id
  is answered with 200. It fails for the id \<open>99999999999\<close>: \<open>parseInt\<close> parses it, but
  the \<open>id\<close> columns are 32-bit integers, the comparison with a value outside their range
  is rejected by the database, and both handlers answer 400.
\<close>

theorem delete_out_of_range_id_rejected:
  "parseInt ''99999999999'' = Some 99999999999
   \<and> delete_matches ''99999999999'' example_db =
       (Response 400 (Failure_thrown Storage_error), example_db)
   \<and> delete_commentary ''99999999999'' example_db =
       (Response 400 (Failure_thrown Storage_error), example_db)"
  by (simp add: parseInt_eval delete_matches_def delete_from_matches_def
      delete_commentary_def delete_from_commentary_def and_then_def int4_param_def
      to_int4_def int4_range_def)

text \<open>
  C9, amended: for an id that \<open>parseInt\<close> parses to an integer inside the signed 32-bit
  range of the \<open>id\<close> columns, both delete handlers answer 200 with their success message,
  whether or not a row has that id (nothing is assumed of the stored rows); and neither
  handler answers 404 for any request.
\<close>

theorem delete_answers_success:
  "(parseInt id' = Some k \<and> int4_range k
      \<longrightarrow> fst (delete_matches id' db) =
            Response 200 (Success_message ''Match deleted successfully'')
        \<and> fst (delete_commentary id' db) =
            Response 200 (Success_message ''Commentary deleted successfully''))
   \<and> fst (delete_matches id' db) \<noteq> Response 404 b
   \<and> fst (delete_commentary id' db) \<noteq> Response 404 b"
  by (auto simp add: delete_matches_def delete_from_matches_def delete_commentary_def
      delete_from_commentary_def and_then_def int4_param_def to_int4_def
      split: option.splits)

theorem delete_answers_success_witness:
  "fst (delete_matches ''9'' example_db) =
     Response 200 (Success_message ''Match deleted successfully'')
   \<and> fst (delete_commentary ''9'' example_db) =
     Response 200 (Success_message ''Commentary deleted successfully'')
   \<and> 9 \<notin> set (map m_id (matches example_db))
   \<and> 9 \<notin> set (map c_id (commentary example_db))"
proof -
  have "parseInt ''9'' = Some 9"
    by (simp add: parseInt_eval)
  then show ?thesis
    using delete_answers_success [of "''9''" 9 example_db]
    by (simp add: int4_range_def example_db_def example_match_def example_comment_def)
qed

subsection \<open>Listing commentary\<close>

text \<open>
  C6, as stated: every GET /matches/:matchId/commentary is answered with success. It fails
  for \<open>matchId = abc\<close>: \<open>parseInt\<close> gives \<open>NaN\<close>, the database rejects it as a value
  for the integer column \<open>match_id\<close>, and the handler answers 400.
\<close>

theorem get_commentary_unparseable_id_rejected:
  "parseInt ''abc'' = None
   \<and> get_commentary ''abc'' example_db =
       (Response 400 (Failure_thrown Storage_error), example_db)"
  by (simp add: parseInt_eval get_commentary_def select_commentary_def and_then_def
      int4_param_def)

text \<open>
  C6, amended: when \<open>matchId\<close> parses to an integer inside the signed 32-bit range, the
  handler answers 200 with exactly the commentary rows of that match id (as a multiset:
  each such row once, and no other), ordered by \<open>createdAt\<close> descending, and leaves the
  state as it was. When moreover every stored commentary row references a stored match
  (the foreign key) and no match has the id, the list is empty.
\<close>

theorem get_commentary_lists_newest_first:
  assumes "parseInt matchId = Some k" and "int4_range k"
  shows "\<exists>rows. get_commentary matchId db =
        (Response 200 (Success_data (Many_commentary rows)), db)
      \<and> mset rows = mset (filter (\<lambda>c. c_matchId c = word_of_int k) (commentary db))
      \<and> sorted_wrt (\<lambda>a b. c_createdAt a \<ge> c_createdAt b) rows
      \<and> ((\<forall>c \<in> set (commentary db). c_matchId c \<in> m_id ` set (matches db))
            \<and> word_of_int k \<notin> m_id ` set (matches db)
          \<longrightarrow> rows = [])"
proof -
  let ?own = "filter (\<lambda>c. c_matchId c = word_of_int k) (commentary db)"
  let ?rows = "order_by_desc c_createdAt ?own"
  have response: "get_commentary matchId db =
      (Response 200 (Success_data (Many_commentary ?rows)), db)"
    using assms
    by (simp add: get_commentary_def select_commentary_def and_then_def int4_param_in_range)
  have unknown: "?rows = []"
    if integrity: "\<forall>c \<in> set (commentary db). c_matchId c \<in> m_id ` set (matches db)"
      and no_match: "word_of_int k \<notin> m_id ` set (matches db)"
  proof -
    have "c_matchId c \<noteq> word_of_int k" if "c \<in> set (commentary db)" for c
    proof
      assume "c_matchId c = word_of_int k"
      moreover from integrity that have "c_matchId c \<in> m_id ` set (matches db)"
        by simp
      ultimately show False
        using no_match by simp
    qed
    then have "?own = []"
      by (simp add: filter_empty_conv)
    then show ?thesis
      by (simp add: order_by_desc_def)
  qed
  from response order_by_desc_mset [of c_createdAt ?own]
    order_by_desc_sorted [of c_createdAt ?own] unknown
  show ?thesis
    by blast
qed

theorem get_commentary_lists_newest_first_witness:
  "get_commentary ''2'' example_db =
     (Response 200 (Success_data (Many_commentary
        [example_comment 2 2 300, example_comment 4 2 200, example_comment 1 2 100])),
      example_db)
   \<and> (\<exists>rows. get_commentary ''2'' example_db =
        (Response 200 (Success_data (Many_commentary rows)), example_db)
      \<and> mset rows = mset (filter (\<lambda>c. c_matchId c = 2) (commentary example_db))
      \<and> sorted_wrt (\<lambda>a b. c_createdAt a \<ge> c_createdAt b) rows)"
proof -
  have "parseInt ''2'' = Some 2"
    by (simp add: parseInt_eval)
  then have general: "\<exists>rows. get_commentary ''2'' example_db =
        (Response 200 (Success_data (Many_commentary rows)), example_db)
      \<and> mset rows = mset (filter (\<lambda>c. c_matchId c = 2) (commentary example_db))
      \<and> sorted_wrt (\<lambda>a b. c_createdAt a \<ge> c_createdAt b) rows"
    using get_commentary_lists_newest_first [of "''2''" 2 example_db]
    by (simp add: int4_range_def) blast
  have "get_commentary ''2'' example_db =
     (Response 200 (Success_data (Many_commentary
        [example_comment 2 2 300, example_comment 4 2 200, example_comment 1 2 100])),
      example_db)"
    by (simp add: parseInt_eval get_commentary_def select_commentary_def and_then_def
        int4_param_def to_int4_def int4_range_def order_by_desc_def example_db_def
        example_comment_def)
  with general show ?thesis
    by blast
qed

subsection \<open>Helper facts on updates\<close>

lemma put_matches_unfold:
  "put_matches parse id' b db =
     (case update_matches
             \<lparr>set_status = um_status b, set_homeScore = um_homeScore b,
              set_awayScore = um_awayScore b,
              set_endTime = (if um_endTime b = Undefined then Undefined
                             else Val (new_Date parse (um_endTime b)))\<rparr>
             (parseInt id') db of
        Inl e \<Rightarrow> (Response 400 (Failure_thrown e), db)
      | Inr (updated, db') \<Rightarrow>
          (case updated of
             [] \<Rightarrow> (Response 404 (Failure ''Match not found''), db')
           | updatedMatch # _ \<Rightarrow>
               (Response 200 (Success_data (One_match updatedMatch)), db')))"
  by (simp add: put_matches_def empty_match_update_def Let_def)

text \<open>The row an accepted update of matches writes in place of \<open>m\<close>.\<close>

lemma update_matches_result:
  assumes "update_matches u v db = Inr (updated, db')"
  shows "\<exists>et st hs as w.
      assign_timestamp (set_endTime u) = Inr et \<and> assign_status (set_status u) = Inr st
      \<and> assign_int4 (set_homeScore u) = Inr hs \<and> assign_int4 (set_awayScore u) = Inr as
      \<and> int4_param v = Inr w
      \<and> db' = db\<lparr>matches := map (\<lambda>m. if m_id m = w
            then m\<lparr>m_status := assigned st (m_status m),
                   m_homeScore := assigned hs (m_homeScore m),
                   m_awayScore := assigned as (m_awayScore m),
                   m_endTime := assigned_nullable et (m_endTime m)\<rparr>
            else m) (matches db)\<rparr>
      \<and> updated = map (\<lambda>m. m\<lparr>m_status := assigned st (m_status m),
                   m_homeScore := assigned hs (m_homeScore m),
                   m_awayScore := assigned as (m_awayScore m),
                   m_endTime := assigned_nullable et (m_endTime m)\<rparr>)
            (filter (\<lambda>m. m_id m = w) (matches db))"
  using assms unfolding update_matches_def and_then_def Let_def
  by (simp split: if_splits sum.splits)

lemma int4_param_Inr: "int4_param v = Inr w \<Longrightarrow> v = Some (sint w)"
proof -
  have "sint (word_of_int k :: int4) = k" if "int4_range k" for k
    using that by (simp add: int4_range_def signed_take_bit_int_eq_self sint_sbintrunc')
  moreover assume "int4_param v = Inr w"
  ultimately show ?thesis
    by (auto simp add: int4_param_def to_int4_def split: option.splits if_splits)
qed

lemma put_matches_state:
  "snd (put_matches parse id' b db) =
     (case update_matches
             \<lparr>set_status = um_status b, set_homeScore = um_homeScore b,
              set_awayScore = um_awayScore b,
              set_endTime = (if um_endTime b = Undefined then Undefined
                             else Val (new_Date parse (um_endTime b)))\<rparr>
             (parseInt id') db of
        Inl e \<Rightarrow> db
      | Inr (updated, db') \<Rightarrow> db')"
  by (simp add: put_matches_unfold split: sum.splits list.splits)

lemma find_Some_filter: "find P xs = Some x \<Longrightarrow> \<exists>rest. filter P xs = x # rest"
  by (induction xs) (auto split: if_splits)

lemma find_Some_member: "find P xs = Some x \<Longrightarrow> x \<in> set xs \<and> P x"
  by (induction xs) (auto split: if_splits)

lemma get_match_accepted:
  assumes "int4_param (parseInt id') = Inr w"
  shows "get_match id' db =
     (case filter (\<lambda>m. m_id m = w) (matches db) of
        [] \<Rightarrow> (Response 404 (Failure ''Match not found''), db)
      | m # _ \<Rightarrow> (Response 200 (Success_data (One_match m)), db))"
  using assms
  by (simp add: get_match_def run_select_matches_def select_from_matches_def qb_where_def
      and_then_def)

lemma assign_status_accepted:
  assumes "f \<noteq> Null" and "\<forall>s. f = Val s \<longrightarrow> status_label s \<noteq> None"
  shows "\<exists>a. assign_status f = Inr a \<and> a \<noteq> Set_to None
      \<and> (\<forall>s st. f = Val s \<longrightarrow> status_label s = Some st \<longrightarrow> a = Set_to (Some st))"
  using assms by (cases f) (auto simp add: and_then_def to_status_def split: option.splits)

lemma assign_int4_accepted:
  assumes "f \<noteq> Null" and "\<forall>n. f = Val n \<longrightarrow> int4_range n"
  shows "\<exists>a. assign_int4 f = Inr a \<and> a \<noteq> Set_to None
      \<and> (\<forall>n. f = Val n \<longrightarrow> a = Set_to (Some (word_of_int n)))"
  using assms by (cases f) (auto simp add: and_then_def int4_param_in_range)

lemma assign_timestamp_accepted:
  assumes "\<forall>s. f = Val s \<longrightarrow> parse s \<noteq> None"
  shows "\<exists>a. assign_timestamp
          (if f = Undefined then Undefined else Val (new_Date parse f)) = Inr a
      \<and> (\<forall>s. f = Val s \<longrightarrow> a = Set_to (parse s))"
  using assms by (cases f) (auto simp add: and_then_def to_timestamp_def split: option.splits)

lemma update_matches_accepted:
  assumes "assign_timestamp (set_endTime u) = Inr et"
    and "assign_status (set_status u) = Inr st" and "st \<noteq> Set_to None"
    and "assign_int4 (set_homeScore u) = Inr hs" and "hs \<noteq> Set_to None"
    and "assign_int4 (set_awayScore u) = Inr as" and "as \<noteq> Set_to None"
    and "int4_param v = Inr w"
    and "set_status u \<noteq> Undefined \<or> set_homeScore u \<noteq> Undefined
      \<or> set_awayScore u \<noteq> Undefined \<or> set_endTime u \<noteq> Undefined"
  shows "update_matches u v db =
     Inr (map (\<lambda>m. m\<lparr>m_status := assigned st (m_status m),
                      m_homeScore := assigned hs (m_homeScore m),
                      m_awayScore := assigned as (m_awayScore m),
                      m_endTime := assigned_nullable et (m_endTime m)\<rparr>)
            (filter (\<lambda>m. m_id m = w) (matches db)),
          db\<lparr>matches := map (\<lambda>m. if m_id m = w
            then m\<lparr>m_status := assigned st (m_status m),
                   m_homeScore := assigned hs (m_homeScore m),
                   m_awayScore := assigned as (m_awayScore m),
                   m_endTime := assigned_nullable et (m_endTime m)\<rparr>
            else m) (matches db)\<rparr>)"
  using assms by (auto simp add: update_matches_def and_then_def Let_def)

lemma put_matches_accepted:
  assumes id: "int4_param (parseInt id') = Inr w"
    and status: "um_status b \<noteq> Null" "\<forall>s. um_status b = Val s \<longrightarrow> status_label s \<noteq> None"
    and home: "um_homeScore b \<noteq> Null" "\<forall>n. um_homeScore b = Val n \<longrightarrow> int4_range n"
    and away: "um_awayScore b \<noteq> Null" "\<forall>n. um_awayScore b = Val n \<longrightarrow> int4_range n"
    and endTime: "\<forall>s. um_endTime b = Val s \<longrightarrow> parse s \<noteq> None"
    and some: "um_status b \<noteq> Undefined \<or> um_homeScore b \<noteq> Undefined
      \<or> um_awayScore b \<noteq> Undefined \<or> um_endTime b \<noteq> Undefined"
  shows "(w \<notin> m_id ` set (matches db)
        \<longrightarrow> fst (put_matches parse id' b db) = Response 404 (Failure ''Match not found''))
    \<and> (\<forall>m. find (\<lambda>m. m_id m = w) (matches db) = Some m \<longrightarrow>
          (\<exists>m'. fst (put_matches parse id' b db) = Response 200 (Success_data (One_match m'))
             \<and> m' \<in> set (matches (snd (put_matches parse id' b db)))
             \<and> m_id m' = m_id m
             \<and> (\<forall>s st. um_status b = Val s \<longrightarrow> status_label s = Some st
                   \<longrightarrow> m_status m' = st)
             \<and> (\<forall>n. um_homeScore b = Val n \<longrightarrow> m_homeScore m' = word_of_int n)
             \<and> (\<forall>n. um_awayScore b = Val n \<longrightarrow> m_awayScore m' = word_of_int n)
             \<and> (\<forall>s. um_endTime b = Val s \<longrightarrow> m_endTime m' = parse s)))"
proof -
  let ?u = "\<lparr>set_status = um_status b, set_homeScore = um_homeScore b,
      set_awayScore = um_awayScore b,
      set_endTime = (if um_endTime b = Undefined then Undefined
                     else Val (new_Date parse (um_endTime b)))\<rparr>"
  from status obtain st where st: "assign_status (um_status b) = Inr st" "st \<noteq> Set_to None"
    "\<forall>s l. um_status b = Val s \<longrightarrow> status_label s = Some l \<longrightarrow> st = Set_to (Some l)"
    using assign_status_accepted [of "um_status b"] by blast
  from home obtain hs where hs: "assign_int4 (um_homeScore b) = Inr hs" "hs \<noteq> Set_to None"
    "\<forall>n. um_homeScore b = Val n \<longrightarrow> hs = Set_to (Some (word_of_int n))"
    using assign_int4_accepted [of "um_homeScore b"] by blast
  from away obtain as where as: "assign_int4 (um_awayScore b) = Inr as" "as \<noteq> Set_to None"
    "\<forall>n. um_awayScore b = Val n \<longrightarrow> as = Set_to (Some (word_of_int n))"
    using assign_int4_accepted [of "um_awayScore b"] by blast
  from endTime obtain et where et: "assign_timestamp (set_endTime ?u) = Inr et"
    "\<forall>s. um_endTime b = Val s \<longrightarrow> et = Set_to (parse s)"
    using assign_timestamp_accepted [of "um_endTime b" parse] by auto
  let ?change = "\<lambda>m. m\<lparr>m_status := assigned st (m_status m),
      m_homeScore := assigned hs (m_homeScore m),
      m_awayScore := assigned as (m_awayScore m),
      m_endTime := assigned_nullable et (m_endTime m)\<rparr>"
  let ?db' = "db\<lparr>matches := map (\<lambda>m. if m_id m = w then ?change m else m) (matches db)\<rparr>"
  have "set_status ?u \<noteq> Undefined \<or> set_homeScore ?u \<noteq> Undefined
      \<or> set_awayScore ?u \<noteq> Undefined \<or> set_endTime ?u \<noteq> Undefined"
    using some by auto
  with st hs as et id
  have run: "update_matches ?u (parseInt id') db =
      Inr (map ?change (filter (\<lambda>m. m_id m = w) (matches db)), ?db')"
    using update_matches_accepted [of ?u et st hs as "parseInt id'" w db]
    by simp
  have none: "fst (put_matches parse id' b db) = Response 404 (Failure ''Match not found'')"
    if "w \<notin> m_id ` set (matches db)"
  proof -
    from that have "filter (\<lambda>m. m_id m = w) (matches db) = []"
      by (auto simp add: filter_empty_conv)
    then show ?thesis
      by (simp add: put_matches_unfold run)
  qed
  have found: "\<exists>m'. fst (put_matches parse id' b db) = Response 200 (Success_data (One_match m'))
             \<and> m' \<in> set (matches (snd (put_matches parse id' b db)))
             \<and> m_id m' = m_id m
             \<and> (\<forall>s l. um_status b = Val s \<longrightarrow> status_label s = Some l \<longrightarrow> m_status m' = l)
             \<and> (\<forall>n. um_homeScore b = Val n \<longrightarrow> m_homeScore m' = word_of_int n)
             \<and> (\<forall>n. um_awayScore b = Val n \<longrightarrow> m_awayScore m' = word_of_int n)
             \<and> (\<forall>s. um_endTime b = Val s \<longrightarrow> m_endTime m' = parse s)"
    if "find (\<lambda>m. m_id m = w) (matches db) = Some m" for m
  proof -
    from that obtain rest where rows: "filter (\<lambda>m. m_id m = w) (matches db) = m # rest"
      using find_Some_filter by fastforce
    from that have m: "m \<in> set (matches db)" "m_id m = w"
      using find_Some_member [of "\<lambda>m. m_id m = w" "matches db" m] by simp_all
    have response: "put_matches parse id' b db =
        (Response 200 (Success_data (One_match (?change m))), ?db')"
      by (simp add: put_matches_unfold run rows)
    have stored: "?change m \<in> set (matches ?db')"
      using m by force
    have updated: "m_id (?change m) = m_id m"
      "\<forall>s l. um_status b = Val s \<longrightarrow> status_label s = Some l \<longrightarrow> m_status (?change m) = l"
      "\<forall>n. um_homeScore b = Val n \<longrightarrow> m_homeScore (?change m) = word_of_int n"
      "\<forall>n. um_awayScore b = Val n \<longrightarrow> m_awayScore (?change m) = word_of_int n"
      "\<forall>s. um_endTime b = Val s \<longrightarrow> m_endTime (?change m) = parse s"
      using st(3) hs(3) as(3) et(2) by auto
    from response stored updated show ?thesis
      by (intro exI [of _ "?change m"]) (simp del: assigned.simps assigned_nullable.simps)
  qed
  from none found show ?thesis
    by blast
qed

lemma put_commentary_unfold:
  "put_commentary decode id' b db =
     (case update_commentary decode
             \<lparr>set_message = uc_message b, set_metadata = uc_metadata b\<rparr>
             (parseInt id') db of
        Inl e \<Rightarrow> (Response 400 (Failure_thrown e), db)
      | Inr (updated, db') \<Rightarrow>
          (case updated of
             [] \<Rightarrow> (Response 404 (Failure ''Commentary not found''), db')
           | updatedCommentary # _ \<Rightarrow>
               (Response 200 (Success_data (One_commentary updatedCommentary)), db')))"
  by (cases "uc_metadata b")
    (simp_all add: put_commentary_def empty_commentary_update_def Let_def)

lemma put_commentary_accepted:
  assumes id: "int4_param (parseInt id') = Inr w"
    and message: "uc_message b \<noteq> Null"
    and some: "uc_message b \<noteq> Undefined \<or> uc_metadata b \<noteq> None"
  shows "(w \<notin> c_id ` set (commentary db)
        \<longrightarrow> fst (put_commentary decode id' b db) = Response 404 (Failure ''Commentary not found''))
    \<and> (\<forall>c. find (\<lambda>c. c_id c = w) (commentary db) = Some c \<longrightarrow>
          (\<exists>c'. fst (put_commentary decode id' b db) =
                  Response 200 (Success_data (One_commentary c'))
             \<and> c' \<in> set (commentary (snd (put_commentary decode id' b db)))
             \<and> c_id c' = c_id c
             \<and> (\<forall>s. uc_message b = Val s \<longrightarrow> c_message c' = s)
             \<and> (uc_metadata b = Some JNull \<longrightarrow> c_metadata c' = None)
             \<and> (\<forall>j. uc_metadata b = Some j \<longrightarrow> j \<noteq> JNull \<longrightarrow> c_metadata c' = Some (decode j))))"
proof -
  let ?msg = "assign_text (uc_message b)"
  let ?md = "assign_jsonb decode (uc_metadata b)"
  let ?change = "\<lambda>c. c\<lparr>c_message := assigned ?msg (c_message c),
      c_metadata := assigned_nullable ?md (c_metadata c)\<rparr>"
  let ?db' = "db\<lparr>commentary := map (\<lambda>c. if c_id c = w then ?change c else c) (commentary db)\<rparr>"
  have kept: "?msg \<noteq> Set_to None"
    using message by (cases "uc_message b") simp_all
  have run: "update_commentary decode
       \<lparr>set_message = uc_message b, set_metadata = uc_metadata b\<rparr> (parseInt id') db =
      Inr (map ?change (filter (\<lambda>c. c_id c = w) (commentary db)), ?db')"
    using id some kept by (auto simp add: update_commentary_def and_then_def Let_def)
  have none: "fst (put_commentary decode id' b db) = Response 404 (Failure ''Commentary not found'')"
    if "w \<notin> c_id ` set (commentary db)"
  proof -
    from that have "filter (\<lambda>c. c_id c = w) (commentary db) = []"
      by (auto simp add: filter_empty_conv)
    then show ?thesis
      by (simp add: put_commentary_unfold run)
  qed
  have found: "\<exists>c'. fst (put_commentary decode id' b db) =
                  Response 200 (Success_data (One_commentary c'))
             \<and> c' \<in> set (commentary (snd (put_commentary decode id' b db)))
             \<and> c_id c' = c_id c
             \<and> (\<forall>s. uc_message b = Val s \<longrightarrow> c_message c' = s)
             \<and> (uc_metadata b = Some JNull \<longrightarrow> c_metadata c' = None)
             \<and> (\<forall>j. uc_metadata b = Some j \<longrightarrow> j \<noteq> JNull \<longrightarrow> c_metadata c' = Some (decode j))"
    if "find (\<lambda>c. c_id c = w) (commentary db) = Some c" for c
  proof -
    from that obtain rest where rows: "filter (\<lambda>c. c_id c = w) (commentary db) = c # rest"
      using find_Some_filter by fastforce
    from that have c: "c \<in> set (commentary db)" "c_id c = w"
      using find_Some_member [of "\<lambda>c. c_id c = w" "commentary db" c] by simp_all
    have response: "put_commentary decode id' b db =
        (Response 200 (Success_data (One_commentary (?change c))), ?db')"
      by (simp add: put_commentary_unfold run rows)
    have stored: "?change c \<in> set (commentary ?db')"
      using c by force
    have nonnull: "to_jsonb decode (Some j) = Some (decode j)" if "j \<noteq> JNull" for j
      using that by (cases j) simp_all
    have updated: "c_id (?change c) = c_id c"
      "\<forall>s. uc_message b = Val s \<longrightarrow> c_message (?change c) = s"
      "uc_metadata b = Some JNull \<longrightarrow> c_metadata (?change c) = None"
      "\<forall>j. uc_metadata b = Some j \<longrightarrow> j \<noteq> JNull \<longrightarrow> c_metadata (?change c) = Some (decode j)"
      using nonnull by auto
    from response stored updated show ?thesis
      by (intro exI [of _ "?change c"]) (simp del: assigned.simps assigned_nullable.simps)
  qed
  from none found show ?thesis
    by blast
qed

lemma not_found_iff:
  assumes none: "w \<notin> f ` set rows \<longrightarrow> r = Response 404 b"
    and found: "\<forall>x. find (\<lambda>x. f x = w) rows = Some x \<longrightarrow> (\<exists>y. r = Response 200 y)"
  shows "r = Response 404 b \<longleftrightarrow> w \<notin> f ` set rows"
proof
  assume not_found: "r = Response 404 b"
  show "w \<notin> f ` set rows"
  proof
    assume "w \<in> f ` set rows"
    then have "find (\<lambda>x. f x = w) rows \<noteq> None"
      by (auto simp add: find_None_iff)
    then obtain x where "find (\<lambda>x. f x = w) rows = Some x"
      by blast
    with found obtain y where "r = Response 200 y"
      by blast
    with not_found show False
      by simp
  qed
next
  assume "w \<notin> f ` set rows"
  with none show "r = Response 404 b"
    by blast
qed

subsection \<open>Updating a match\<close>

text \<open>
  C5. For every PUT /matches/:id request, each stored match corresponds, position by
  position, to a match of the state after the request that has the same \<open>id\<close>,
  \<open>sport\<close>, \<open>homeTeam\<close>, \<open>awayTeam\<close>, \<open>startTime\<close> and \<open>createdAt\<close>, the same
  \<open>status\<close>, \<open>homeScore\<close>, \<open>awayScore\<close>, \<open>endTime\<close> wherever the body leaves that
  field undefined, and that is the same row altogether when the path parameter does not
  parse to its id; the commentary table is untouched. In particular a body with only
  \<open>status: "live"\<close> and an id in the integer range turns the rows of that id into
  themselves with status \<open>live\<close> and changes nothing else.
\<close>

theorem put_matches_changes_only_present_fields:
  "list_all2 (\<lambda>m m'.
        m_id m' = m_id m \<and> m_sport m' = m_sport m \<and> m_homeTeam m' = m_homeTeam m
      \<and> m_awayTeam m' = m_awayTeam m \<and> m_startTime m' = m_startTime m
      \<and> m_createdAt m' = m_createdAt m
      \<and> (um_status b = Undefined \<longrightarrow> m_status m' = m_status m)
      \<and> (um_homeScore b = Undefined \<longrightarrow> m_homeScore m' = m_homeScore m)
      \<and> (um_awayScore b = Undefined \<longrightarrow> m_awayScore m' = m_awayScore m)
      \<and> (um_endTime b = Undefined \<longrightarrow> m_endTime m' = m_endTime m)
      \<and> (parseInt id' \<noteq> Some (sint (m_id m)) \<longrightarrow> m' = m))
     (matches db) (matches (snd (put_matches parse id' b db)))
   \<and> commentary (snd (put_matches parse id' b db)) = commentary db
   \<and> (b = \<lparr>um_status = Val ''live'', um_homeScore = Undefined, um_awayScore = Undefined,
            um_endTime = Undefined\<rparr> \<and> parseInt id' = Some k \<and> int4_range k
        \<longrightarrow> matches (snd (put_matches parse id' b db)) =
            map (\<lambda>m. if m_id m = word_of_int k then m\<lparr>m_status := Live\<rparr> else m)
              (matches db))"
proof -
  let ?u = "\<lparr>set_status = um_status b, set_homeScore = um_homeScore b,
      set_awayScore = um_awayScore b,
      set_endTime = (if um_endTime b = Undefined then Undefined
                     else Val (new_Date parse (um_endTime b)))\<rparr>"
  let ?frame = "\<lambda>m m'.
        m_id m' = m_id m \<and> m_sport m' = m_sport m \<and> m_homeTeam m' = m_homeTeam m
      \<and> m_awayTeam m' = m_awayTeam m \<and> m_startTime m' = m_startTime m
      \<and> m_createdAt m' = m_createdAt m
      \<and> (um_status b = Undefined \<longrightarrow> m_status m' = m_status m)
      \<and> (um_homeScore b = Undefined \<longrightarrow> m_homeScore m' = m_homeScore m)
      \<and> (um_awayScore b = Undefined \<longrightarrow> m_awayScore m' = m_awayScore m)
      \<and> (um_endTime b = Undefined \<longrightarrow> m_endTime m' = m_endTime m)
      \<and> (parseInt id' \<noteq> Some (sint (m_id m)) \<longrightarrow> m' = m)"
  have frame: "list_all2 ?frame (matches db) (matches (snd (put_matches parse id' b db)))
      \<and> commentary (snd (put_matches parse id' b db)) = commentary db"
  proof (cases "update_matches ?u (parseInt id') db")
    case (Inl e)
    then have "snd (put_matches parse id' b db) = db"
      by (simp add: put_matches_state)
    then show ?thesis
      by (simp add: list_all2_same)
  next
    case (Inr r)
    obtain updated db' where r: "r = (updated, db')"
      by (cases r)
    from Inr r obtain et st hs as w
      where et: "assign_timestamp (set_endTime ?u) = Inr et"
        and st: "assign_status (set_status ?u) = Inr st"
        and hs: "assign_int4 (set_homeScore ?u) = Inr hs"
        and as: "assign_int4 (set_awayScore ?u) = Inr as"
        and w: "int4_param (parseInt id') = Inr w"
        and db': "db' = db\<lparr>matches := map (\<lambda>m. if m_id m = w
            then m\<lparr>m_status := assigned st (m_status m),
                   m_homeScore := assigned hs (m_homeScore m),
                   m_awayScore := assigned as (m_awayScore m),
                   m_endTime := assigned_nullable et (m_endTime m)\<rparr>
            else m) (matches db)\<rparr>"
      using update_matches_result [of ?u "parseInt id'" db updated db'] by blast
    have absent:
      "um_status b = Undefined \<longrightarrow> st = Unchanged"
      "um_homeScore b = Undefined \<longrightarrow> hs = Unchanged"
      "um_awayScore b = Undefined \<longrightarrow> as = Unchanged"
      "um_endTime b = Undefined \<longrightarrow> et = Unchanged"
      using et st hs as by auto
    have addressed: "parseInt id' = Some (sint w)"
      using w by (rule int4_param_Inr)
    have "snd (put_matches parse id' b db) = db'"
      using Inr r by (simp add: put_matches_state)
    then show ?thesis
      using absent addressed
      by (auto simp add: db' list.rel_map list_all2_same)
  qed
  have live: "matches (snd (put_matches parse id' b db)) =
      map (\<lambda>m. if m_id m = word_of_int k then m\<lparr>m_status := Live\<rparr> else m) (matches db)"
    if "b = \<lparr>um_status = Val ''live'', um_homeScore = Undefined, um_awayScore = Undefined,
            um_endTime = Undefined\<rparr>" and "parseInt id' = Some k" and "int4_range k"
    using that
    by (simp add: put_matches_state update_matches_def and_then_def int4_param_in_range
        to_status_def status_label_def)
  from frame live show ?thesis
    by blast
qed

theorem put_matches_changes_only_present_fields_witness:
  "matches (snd (put_matches example_parse ''1'' status_live_only example_db)) =
     [example_match 1 ''football'' Live, example_match 2 ''football'' Live,
      example_match 3 ''tennis'' Live]
   \<and> commentary (snd (put_matches example_parse ''1'' status_live_only example_db)) =
       commentary example_db"
proof -
  have "parseInt ''1'' = Some 1"
    by (simp add: parseInt_eval)
  then show ?thesis
    using put_matches_changes_only_present_fields
      [of status_live_only "''1''" example_db example_parse 1]
    by (simp add: status_live_only_def int4_range_def example_db_def example_match_def)
qed

subsection \<open>Not found\<close>

text \<open>
  C7, as stated: PUT /matches/:id answers 404 if and only if zero rows match the parsed
  id. It fails for a body without any updatable field: no match has id 9, yet
  PUT /matches/9 with the empty body is answered with 400, the query builder's
  \<open>No values to set\<close>, and not with 404.
\<close>

theorem put_empty_body_unknown_id_not_404:
  "parseInt ''9'' = Some 9
   \<and> filter (\<lambda>m. m_id m = 9) (matches example_db) = []
   \<and> fst (put_matches example_parse ''9'' no_match_fields example_db) =
       Response 400 (Failure_thrown No_values_to_set)
   \<and> fst (put_matches example_parse ''9'' no_match_fields example_db) \<noteq>
       Response 404 (Failure ''Match not found'')"
  by (simp add: parseInt_eval put_matches_def update_matches_def empty_match_update_def
      no_match_fields_def example_db_def example_match_def)

text \<open>
  C7, amended: let the id parse to an integer inside the signed 32-bit range; let the body
  of PUT /matches/:id have at least one of its four fields, no \<open>null\<close> for \<open>status\<close> or
  a score, a \<open>status\<close> that is one of the enum's labels, scores inside the integer range
  and an \<open>endTime\<close> that parses to a valid date; let the body of PUT /commentary/:id
  have \<open>message\<close> or \<open>metadata\<close> and no \<open>null\<close> \<open>message\<close>. Then each of
  GET /matches/:id, PUT /matches/:id and PUT /commentary/:id answers 404 with its
  "not found" message if and only if no row has the id; and when a row has it, GET
  answers 200 with the first such row, and each PUT answers 200 with a row of that id
  which is stored in the state after the request and carries the values the body
  supplied, a \<open>metadata\<close> value as the \<open>jsonb\<close> column reads it back (\<open>decode\<close>).
\<close>

theorem not_found_iff_no_row:
  assumes id: "parseInt id' = Some k" "int4_range k"
    and status: "um_status mb \<noteq> Null" "\<forall>s. um_status mb = Val s \<longrightarrow> status_label s \<noteq> None"
    and home: "um_homeScore mb \<noteq> Null" "\<forall>n. um_homeScore mb = Val n \<longrightarrow> int4_range n"
    and away: "um_awayScore mb \<noteq> Null" "\<forall>n. um_awayScore mb = Val n \<longrightarrow> int4_range n"
    and endTime: "\<forall>s. um_endTime mb = Val s \<longrightarrow> parse s \<noteq> None"
    and some_match_field: "um_status mb \<noteq> Undefined \<or> um_homeScore mb \<noteq> Undefined
      \<or> um_awayScore mb \<noteq> Undefined \<or> um_endTime mb \<noteq> Undefined"
    and message: "uc_message cb \<noteq> Null"
    and some_commentary_field: "uc_message cb \<noteq> Undefined \<or> uc_metadata cb \<noteq> None"
  shows "(fst (get_match id' db) = Response 404 (Failure ''Match not found'')
          \<longleftrightarrow> word_of_int k \<notin> m_id ` set (matches db))
    \<and> (\<forall>m. find (\<lambda>m. m_id m = word_of_int k) (matches db) = Some m
          \<longrightarrow> fst (get_match id' db) = Response 200 (Success_data (One_match m)))
    \<and> (fst (put_matches parse id' mb db) = Response 404 (Failure ''Match not found'')
          \<longleftrightarrow> word_of_int k \<notin> m_id ` set (matches db))
    \<and> (\<forall>m. find (\<lambda>m. m_id m = word_of_int k) (matches db) = Some m \<longrightarrow>
          (\<exists>m'. fst (put_matches parse id' mb db) =
                  Response 200 (Success_data (One_match m'))
             \<and> m' \<in> set (matches (snd (put_matches parse id' mb db)))
             \<and> m_id m' = m_id m
             \<and> (\<forall>s st. um_status mb = Val s \<longrightarrow> status_label s = Some st
                   \<longrightarrow> m_status m' = st)
             \<and> (\<forall>n. um_homeScore mb = Val n \<longrightarrow> m_homeScore m' = word_of_int n)
             \<and> (\<forall>n. um_awayScore mb = Val n \<longrightarrow> m_awayScore m' = word_of_int n)
             \<and> (\<forall>s. um_endTime mb = Val s \<longrightarrow> m_endTime m' = parse s)))
    \<and> (fst (put_commentary decode id' cb db) = Response 404 (Failure ''Commentary not found'')
          \<longleftrightarrow> word_of_int k \<notin> c_id ` set (commentary db))
    \<and> (\<forall>c. find (\<lambda>c. c_id c = word_of_int k) (commentary db) = Some c \<longrightarrow>
          (\<exists>c'. fst (put_commentary decode id' cb db) =
                  Response 200 (Success_data (One_commentary c'))
             \<and> c' \<in> set (commentary (snd (put_commentary decode id' cb db)))
             \<and> c_id c' = c_id c
             \<and> (\<forall>s. uc_message cb = Val s \<longrightarrow> c_message c' = s)
             \<and> (uc_metadata cb = Some JNull \<longrightarrow> c_metadata c' = None)
             \<and> (\<forall>j. uc_metadata cb = Some j \<longrightarrow> j \<noteq> JNull \<longrightarrow> c_metadata c' = Some (decode j))))"
proof -
  define w :: int4 where "w = word_of_int k"
  have bound: "int4_param (parseInt id') = Inr w"
    using id by (simp add: w_def int4_param_in_range)
  have get_none: "w \<notin> m_id ` set (matches db)
      \<longrightarrow> fst (get_match id' db) = Response 404 (Failure ''Match not found'')"
  proof
    assume "w \<notin> m_id ` set (matches db)"
    then have "filter (\<lambda>m. m_id m = w) (matches db) = []"
      by (auto simp add: filter_empty_conv)
    then show "fst (get_match id' db) = Response 404 (Failure ''Match not found'')"
      by (simp add: get_match_accepted [OF bound])
  qed
  have get_found: "\<forall>m. find (\<lambda>m. m_id m = w) (matches db) = Some m
      \<longrightarrow> fst (get_match id' db) = Response 200 (Success_data (One_match m))"
  proof (intro allI impI)
    fix m
    assume "find (\<lambda>m. m_id m = w) (matches db) = Some m"
    then obtain rest where "filter (\<lambda>m. m_id m = w) (matches db) = m # rest"
      using find_Some_filter by fastforce
    then show "fst (get_match id' db) = Response 200 (Success_data (One_match m))"
      by (simp add: get_match_accepted [OF bound])
  qed
  note put_match = put_matches_accepted
    [OF bound status home away endTime some_match_field, of db]
  note put_comm = put_commentary_accepted [OF bound message some_commentary_field, of db]
  have get_iff: "fst (get_match id' db) = Response 404 (Failure ''Match not found'')
      \<longleftrightarrow> w \<notin> m_id ` set (matches db)"
    using get_none get_found by (intro not_found_iff) blast+
  have put_match_iff:
    "fst (put_matches parse id' mb db) = Response 404 (Failure ''Match not found'')
      \<longleftrightarrow> w \<notin> m_id ` set (matches db)"
    using put_match by (intro not_found_iff) blast+
  have put_comm_iff:
    "fst (put_commentary decode id' cb db) = Response 404 (Failure ''Commentary not found'')
      \<longleftrightarrow> w \<notin> c_id ` set (commentary db)"
    using put_comm by (intro not_found_iff) blast+
  from get_iff get_found put_match_iff put_match put_comm_iff put_comm
  show ?thesis
    unfolding w_def by (intro conjI) blast+
qed

theorem not_found_iff_no_row_witness:
  "fst (get_match ''2'' example_db) =
     Response 200 (Success_data (One_match (example_match 2 ''football'' Live)))
   \<and> fst (put_matches example_parse ''9'' score_update example_db) =
       Response 404 (Failure ''Match not found'')
   \<and> fst (put_commentary example_decode ''9'' message_update example_db) =
       Response 404 (Failure ''Commentary not found'')
   \<and> (\<exists>c'. fst (put_commentary example_decode ''2'' metadata_update example_db) =
            Response 200 (Success_data (One_commentary c'))
          \<and> c_id c' = 2 \<and> c_metadata c' = Some (JNum 123))"
proof -
  have ids: "parseInt ''2'' = Some 2" "parseInt ''9'' = Some 9"
    by (simp_all add: parseInt_eval)
  have found: "fst (get_match ''2'' example_db) =
     Response 200 (Success_data (One_match (example_match 2 ''football'' Live)))"
    using ids(1) not_found_iff_no_row
      [of "''2''" 2 score_update example_parse message_update example_db example_decode]
    by (simp add: score_update_def message_update_def int4_range_def status_label_def
        example_db_def example_match_def)
  have missing: "fst (put_matches example_parse ''9'' score_update example_db) =
       Response 404 (Failure ''Match not found'')
     \<and> fst (put_commentary example_decode ''9'' message_update example_db) =
       Response 404 (Failure ''Commentary not found'')"
    using ids(2) not_found_iff_no_row
      [of "''9''" 9 score_update example_parse message_update example_db example_decode]
    by (simp add: score_update_def message_update_def int4_range_def status_label_def
        example_db_def example_match_def example_comment_def)
  have decoded: "\<exists>c'. fst (put_commentary example_decode ''2'' metadata_update example_db) =
            Response 200 (Success_data (One_commentary c'))
          \<and> c_id c' = 2 \<and> c_metadata c' = Some (JNum 123)"
    using ids(1) not_found_iff_no_row
      [of "''2''" 2 score_update example_parse metadata_update example_db example_decode]
    by (simp add: score_update_def metadata_update_def int4_range_def status_label_def
        example_db_def example_match_def example_comment_def example_decode_def) blast
  from found missing decoded show ?thesis
    by simp
qed

end
